theory Spec2Isabelle
  imports Main
begin

section \<open>Values, exceptions and observable effects\<close>

text \<open>
  The program is the single module \<^verbatim>\<open>cmr_token_creator.py\<close>. Its functions talk to
  three outside parties: the identity provider (over HTTP, through \<^verbatim>\<open>requests\<close>), the
  parameter store and the key service (through \<^verbatim>\<open>boto3\<close>). The model keeps the
  program's own control flow and makes every outside call an entry of a trace; what the
  outside party answers is read from a \<open>world\<close>, about which nothing is assumed.
\<close>

text \<open>
  A parsed JSON document, as \<^verbatim>\<open>response.json()\<close> returns it, and at the same time
  the Python values the program passes around (\<^verbatim>\<open>False\<close> is \<open>JBool False\<close>).
  An object is kept as an association list read with \<open>map_of\<close>. Numbers are the
  integers; fractional numbers play no part in the program.
\<close>

datatype json =
    JNull
  | JBool bool
  | JInt int
  | JStr string
  | JArr "json list"
  | JObj "(string \<times> json) list"

text \<open>The exceptions that can travel through the program.\<close>

datatype exn =
    ClientError string
  | BotoCoreError string
  | RequestException
  | JSONDecodeError
  | KeyError string
  | AttributeError
  | TypeError
  | SystemExit int

datatype level = INFO | ERROR

datatype http_method = GET | POST

text \<open>
  The address of a request. \<^verbatim>\<open>f"{delete_token_url}={token['access_token']}"\<close> is kept
  as the pair of its two parts, \<open>Url_eq delete_token_url v\<close>: how Python prints the value
  \<open>v\<close> into the text is not modelled.
\<close>

datatype url = Url string | Url_eq string json

text \<open>The keyword arguments of \<^verbatim>\<open>put_parameter\<close>.\<close>

record put_args =
  p_name :: string
  p_description :: string
  p_value :: json
  p_type :: string
  p_key_id :: string
  p_overwrite :: bool
  p_tier :: string

text \<open>
  One entry of the trace per effect: a log line, an HTTP request (method, address,
  headers, basic-auth user and password), \<^verbatim>\<open>get_parameter(Name, WithDecryption)\<close>,
  \<^verbatim>\<open>describe_key(KeyId)\<close> and \<^verbatim>\<open>put_parameter(...)\<close>. An entry records that the call was
  made, whatever the answer.
\<close>

datatype event =
    Log level string
  | Http http_method url "(string \<times> string) list" string string
  | Ssm_get_parameter string bool
  | Kms_describe_key string
  | Ssm_put_parameter put_args

text \<open>
  What an HTTP call gives back: \<^verbatim>\<open>requests\<close> raises (no answer), or there is a response
  whose body is JSON (\<open>Some\<close>) or not (\<open>None\<close>, on which \<^verbatim>\<open>.json()\<close> raises).
\<close>

datatype reply = Transport_error | Response "json option"

text \<open>
  The outside world. \<open>http n\<close> answers the \<open>n\<close>-th HTTP request of a run (counted from
  0); the three AWS calls answer by their arguments, with the value the program reads out
  of the response (\<^verbatim>\<open>["Parameter"]["Value"]\<close>, \<^verbatim>\<open>["KeyMetadata"]["KeyId"]\<close>) or with the
  exception raised.
\<close>

record world =
  http :: "nat \<Rightarrow> reply"
  ssm_get_parameter :: "string \<Rightarrow> exn + string"
  kms_describe_key :: "string \<Rightarrow> exn + string"
  ssm_put_parameter :: "put_args \<Rightarrow> exn + unit"

type_synonym 'a outcome = "(exn + 'a) \<times> event list"

section \<open>Python operations on parsed JSON\<close>

text \<open>\<^verbatim>\<open>x.keys()\<close>: only a dict has it.\<close>

fun py_keys :: "json \<Rightarrow> exn + string list" where
  "py_keys (JObj d) = Inr (map fst d)"
| "py_keys _ = Inl AttributeError"

text \<open>\<^verbatim>\<open>x[k]\<close> on a dict.\<close>

fun py_getitem :: "json \<Rightarrow> string \<Rightarrow> exn + json" where
  "py_getitem (JObj d) k = (case map_of d k of None \<Rightarrow> Inl (KeyError k) | Some v \<Rightarrow> Inr v)"
| "py_getitem _ k = Inl TypeError"

text \<open>
  \<^verbatim>\<open>for token in x\<close>: a list gives its elements, a dict its keys, a string its
  characters; nothing else can be iterated.
\<close>

fun py_iter :: "json \<Rightarrow> exn + json list" where
  "py_iter (JArr xs) = Inr xs"
| "py_iter (JObj d) = Inr (map (\<lambda>kv. JStr (fst kv)) d)"
| "py_iter (JStr s) = Inr (map (\<lambda>c. JStr [c]) s)"
| "py_iter _ = Inl TypeError"

text \<open>Truth value of a Python object, as \<^verbatim>\<open>not token\<close> reads it.\<close>

fun truthy :: "json \<Rightarrow> bool" where
  "truthy JNull = False"
| "truthy (JBool b) = b"
| "truthy (JInt n) = (n \<noteq> 0)"
| "truthy (JStr s) = (s \<noteq> [])"
| "truthy (JArr xs) = (xs \<noteq> [])"
| "truthy (JObj d) = (d \<noteq> [])"

section \<open>HTTP calls\<close>

definition HEADERS :: "(string \<times> string) list" where
  "HEADERS = [(''Accept'', ''application/json'')]"

fun is_http :: "event \<Rightarrow> bool" where
  "is_http (Http m u h usr pwd) = True"
| "is_http _ = False"

definition http_calls :: "event list \<Rightarrow> nat" where
  "http_calls tr = length (filter is_http tr)"

text \<open>
  \<^verbatim>\<open>requests.get\<close> / \<^verbatim>\<open>requests.post(url, headers=HEADERS, auth=HTTPBasicAuth(u, p))\<close>:
  the request enters the trace, and the world's answer to it is the result.
\<close>

definition requests_call ::
  "world \<Rightarrow> http_method \<Rightarrow> url \<Rightarrow> string \<Rightarrow> string \<Rightarrow> event list \<Rightarrow> (json option) outcome" where
  "requests_call w m u username password tr =
     (case http w (http_calls tr) of
        Transport_error \<Rightarrow> (Inl RequestException, tr @ [Http m u HEADERS username password])
      | Response body \<Rightarrow> (Inr body, tr @ [Http m u HEADERS username password]))"

text \<open>\<^verbatim>\<open>response.json()\<close>.\<close>

definition response_json :: "json option \<Rightarrow> exn + json" where
  "response_json body = (case body of None \<Rightarrow> Inl JSONDecodeError | Some j \<Rightarrow> Inr j)"

section \<open>The token acquirer\<close>

text \<open>
  The loop of \<^verbatim>\<open>handle_token_error\<close> over the listed tokens: an entry with an
  \<^verbatim>\<open>access_token\<close> key gets one revoke request, whose response is not looked at.
\<close>

fun revoke_tokens ::
  "world \<Rightarrow> string \<Rightarrow> string \<Rightarrow> string \<Rightarrow> json list \<Rightarrow> event list \<Rightarrow> unit outcome" where
  "revoke_tokens w username password delete_token_url [] tr = (Inr (), tr)"
| "revoke_tokens w username password delete_token_url (token # rest) tr =
     (case py_keys token of
        Inl x \<Rightarrow> (Inl x, tr)
      | Inr ks \<Rightarrow>
          if ''access_token'' \<in> set ks then
            (case py_getitem token ''access_token'' of
               Inl x \<Rightarrow> (Inl x, tr)
             | Inr v \<Rightarrow>
                 (case requests_call w POST (Url_eq delete_token_url v) username password tr of
                    (Inl x, tr1) \<Rightarrow> (Inl x, tr1)
                  | (Inr r, tr1) \<Rightarrow> revoke_tokens w username password delete_token_url rest tr1))
          else revoke_tokens w username password delete_token_url rest tr)"

definition error_encountered :: string where
  "error_encountered = ''Error encountered when trying to retrieve bearer token from EDL.''"

definition successfully_generated :: string where
  "successfully_generated = ''Successfully generated EDL bearer token.''"

text \<open>
  \<^verbatim>\<open>handle_token_error\<close>: list the tokens, revoke them, ask for a token once more. The
  result is the new token, or \<^verbatim>\<open>False\<close> after an error line was logged.
\<close>

definition handle_token_error ::
  "world \<Rightarrow> json \<Rightarrow> string \<Rightarrow> string \<Rightarrow> string \<Rightarrow> string \<Rightarrow> event list \<Rightarrow> json outcome" where
  "handle_token_error w token_data0 username password token_url delete_token_url tr =
     (case requests_call w GET (Url (token_url @ ''s'')) username password tr of
        (Inl x, tr1) \<Rightarrow> (Inl x, tr1)
      | (Inr body, tr1) \<Rightarrow>
     (case response_json body of
        Inl x \<Rightarrow> (Inl x, tr1)
      | Inr token_data \<Rightarrow>
     (case py_iter token_data of
        Inl x \<Rightarrow> (Inl x, tr1)
      | Inr tokens \<Rightarrow>
     (case revoke_tokens w username password delete_token_url tokens tr1 of
        (Inl x, tr2) \<Rightarrow> (Inl x, tr2)
      | (Inr u, tr2) \<Rightarrow>
     (case requests_call w POST (Url token_url) username password tr2 of
        (Inl x, tr3) \<Rightarrow> (Inl x, tr3)
      | (Inr body2, tr3) \<Rightarrow>
     (case response_json body2 of
        Inl x \<Rightarrow> (Inl x, tr3)
      | Inr token_data2 \<Rightarrow>
     (case py_keys token_data2 of
        Inl x \<Rightarrow> (Inl x, tr3)
      | Inr ks \<Rightarrow>
          if ''error'' \<in> set ks then (Inr (JBool False), tr3 @ [Log ERROR error_encountered])
          else (case py_getitem token_data2 ''access_token'' of
                  Inl x \<Rightarrow> (Inl x, tr3)
                | Inr v \<Rightarrow> (Inr v, tr3)))))))))"

text \<open>
  \<^verbatim>\<open>generate_token\<close>: one token request; an \<^verbatim>\<open>error\<close> key decides first, and only the
  code \<^verbatim>\<open>max_token_limit\<close> leads to \<^verbatim>\<open>handle_token_error\<close>. The line
  \<^verbatim>\<open>logger.info("Successfully generated EDL bearer token.")\<close> is reached on every path
  but the early \<^verbatim>\<open>return False\<close>.
\<close>

definition generate_token ::
  "world \<Rightarrow> string \<Rightarrow> string \<Rightarrow> string \<Rightarrow> string \<Rightarrow> event list \<Rightarrow> json outcome" where
  "generate_token w username password token_url delete_token_url tr =
     (case requests_call w POST (Url token_url) username password tr of
        (Inl x, tr1) \<Rightarrow> (Inl x, tr1)
      | (Inr body, tr1) \<Rightarrow>
     (case response_json body of
        Inl x \<Rightarrow> (Inl x, tr1)
      | Inr token_data \<Rightarrow>
     (case py_keys token_data of
        Inl x \<Rightarrow> (Inl x, tr1)
      | Inr ks \<Rightarrow>
          if ''error'' \<in> set ks then
            (case py_getitem token_data ''error'' of
               Inl x \<Rightarrow> (Inl x, tr1)
             | Inr code \<Rightarrow>
                 if code = JStr ''max_token_limit'' then
                   (case handle_token_error w token_data username password token_url
                           delete_token_url tr1 of
                      (Inl x, tr2) \<Rightarrow> (Inl x, tr2)
                    | (Inr token, tr2) \<Rightarrow> (Inr token, tr2 @ [Log INFO successfully_generated]))
                 else (Inr (JBool False), tr1 @ [Log ERROR error_encountered]))
          else
            (case py_getitem token_data ''access_token'' of
               Inl x \<Rightarrow> (Inl x, tr1)
             | Inr token \<Rightarrow> (Inr token, tr1 @ [Log INFO successfully_generated])))))"

section \<open>The credential loader\<close>

text \<open>
  \<^verbatim>\<open>get_edl_creds\<close>: two decrypted reads. A \<^verbatim>\<open>ClientError\<close> of either is logged in two
  error lines and raised again; any other exception passes through the \<^verbatim>\<open>except\<close>
  clause untouched.
\<close>

definition could_not_retrieve :: string where
  "could_not_retrieve = ''Could not retrieve EDL credentials from SSM Parameter Store.''"

fun is_ClientError :: "exn \<Rightarrow> bool" where
  "is_ClientError (ClientError e) = True"
| "is_ClientError _ = False"

text \<open>\<^verbatim>\<open>str(error)\<close> of a caught \<^verbatim>\<open>ClientError\<close>: its message.\<close>

fun error_text :: "exn \<Rightarrow> string" where
  "error_text (ClientError e) = e"
| "error_text _ = []"

definition creds_handler :: "exn \<Rightarrow> event list \<Rightarrow> (string \<times> string) outcome" where
  "creds_handler x tr =
     (if is_ClientError x
      then (Inl x, tr @ [Log ERROR could_not_retrieve, Log ERROR (error_text x)])
      else (Inl x, tr))"

definition get_edl_creds :: "world \<Rightarrow> event list \<Rightarrow> (string \<times> string) outcome" where
  "get_edl_creds w tr =
     (case ssm_get_parameter w ''edl_username'' of
        Inl x \<Rightarrow> creds_handler x (tr @ [Ssm_get_parameter ''edl_username'' True])
      | Inr username \<Rightarrow>
     (case ssm_get_parameter w ''edl_password'' of
        Inl x \<Rightarrow>
          creds_handler x
            (tr @ [Ssm_get_parameter ''edl_username'' True, Ssm_get_parameter ''edl_password'' True])
      | Inr password \<Rightarrow>
          (Inr (username, password),
           tr @ [Ssm_get_parameter ''edl_username'' True, Ssm_get_parameter ''edl_password'' True,
                 Log INFO ''Retrieved EDL username and password.''])))"

section \<open>The token store\<close>

definition could_not_store :: string where
  "could_not_store = ''Could not store EDL bearer token in SSM Parameter Store.''"

definition has_been_stored :: string where
  "has_been_stored =
     ''EDL bearer token has been stored as a secure string in SSM Parameter Store.''"

text \<open>\<^verbatim>\<open>f"alias/{prefix}-ssm-parameter-store"\<close>, the \<^verbatim>\<open>KeyId\<close> given to \<^verbatim>\<open>describe_key\<close>.\<close>

definition key_alias :: "string \<Rightarrow> string" where
  "key_alias prefix = ''alias/'' @ prefix @ ''-ssm-parameter-store''"

text \<open>The arguments of the one \<^verbatim>\<open>put_parameter\<close> call.\<close>

definition token_parameter :: "json \<Rightarrow> string \<Rightarrow> put_args" where
  "token_parameter token key =
     \<lparr> p_name = ''bearer--edl--token'',
       p_description = ''Temporary EDL bearer token'',
       p_value = token,
       p_type = ''SecureString'',
       p_key_id = key,
       p_overwrite = True,
       p_tier = ''Standard'' \<rparr>"

definition store_handler :: "exn \<Rightarrow> event list \<Rightarrow> unit outcome" where
  "store_handler x tr =
     (if is_ClientError x
      then (Inl x, tr @ [Log ERROR could_not_store, Log ERROR (error_text x)])
      else (Inl x, tr))"

text \<open>
  \<^verbatim>\<open>store_token\<close>: resolve the alias to a key id, then write the parameter. The token is
  whatever \<^verbatim>\<open>generate_token\<close> returned.
\<close>

definition store_token :: "world \<Rightarrow> json \<Rightarrow> string \<Rightarrow> event list \<Rightarrow> unit outcome" where
  "store_token w token prefix tr =
     (case kms_describe_key w (key_alias prefix) of
        Inl x \<Rightarrow> store_handler x (tr @ [Kms_describe_key (key_alias prefix)])
      | Inr key \<Rightarrow>
     (case ssm_put_parameter w (token_parameter token key) of
        Inl x \<Rightarrow>
          store_handler x
            (tr @ [Kms_describe_key (key_alias prefix), Ssm_put_parameter (token_parameter token key)])
      | Inr u \<Rightarrow>
          (Inr (),
           tr @ [Kms_describe_key (key_alias prefix), Ssm_put_parameter (token_parameter token key),
                 Log INFO has_been_stored])))"

section \<open>The orchestrator\<close>

definition token_url :: string where
  "token_url = ''https://urs.earthdata.nasa.gov/api/users/token''"

definition delete_token_url :: string where
  "delete_token_url = ''https://urs.earthdata.nasa.gov/api/users/revoke_token?token''"

text \<open>
  The \<^verbatim>\<open>except botocore.exceptions.ClientError\<close> clause of \<^verbatim>\<open>lambda_handler\<close>: a
  \<^verbatim>\<open>ClientError\<close> becomes \<^verbatim>\<open>sys.exit(1)\<close>, every other exception leaves the handler
  as it is.
\<close>

definition exit_handler :: "exn \<Rightarrow> event list \<Rightarrow> unit outcome" where
  "exit_handler x tr =
     (if is_ClientError x then (Inl (SystemExit 1), tr @ [Log INFO ''Program exiting.''])
      else (Inl x, tr))"

text \<open>
  \<^verbatim>\<open>lambda_handler(event, context)\<close>. The event is a dict of strings; \<^verbatim>\<open>event["prefix"]\<close>
  is read when the arguments of \<^verbatim>\<open>store_token\<close> are evaluated. The test
  \<^verbatim>\<open>if not token\<close> stands after the call of \<^verbatim>\<open>store_token\<close>.
\<close>

definition lambda_handler :: "world \<Rightarrow> (string \<times> string) list \<Rightarrow> unit outcome" where
  "lambda_handler w event =
     (case get_edl_creds w [Log INFO ''Attempting to create token.''] of
        (Inl x, tr1) \<Rightarrow> exit_handler x tr1
      | (Inr (username, password), tr1) \<Rightarrow>
     (case generate_token w username password token_url delete_token_url tr1 of
        (Inl x, tr2) \<Rightarrow> exit_handler x tr2
      | (Inr token, tr2) \<Rightarrow>
     (case map_of event ''prefix'' of
        None \<Rightarrow> exit_handler (KeyError ''prefix'') tr2
      | Some prefix \<Rightarrow>
     (case store_token w token prefix tr2 of
        (Inl x, tr3) \<Rightarrow> exit_handler x tr3
      | (Inr u, tr3) \<Rightarrow>
          if \<not> truthy token then (Inl (SystemExit 1), tr3 @ [Log INFO ''Program exiting.''])
          else (Inr (), tr3)))))"

section \<open>Vocabulary of the properties\<close>

text \<open>
  What a list-tokens answer holds: an entry is a JSON object, and its token is the value
  under \<^verbatim>\<open>access_token\<close> when it has one.
\<close>

fun is_object :: "json \<Rightarrow> bool" where
  "is_object (JObj d) = True"
| "is_object _ = False"

fun access_token_of :: "json \<Rightarrow> json option" where
  "access_token_of (JObj d) = map_of d ''access_token''"
| "access_token_of _ = None"

definition access_tokens_of :: "json list \<Rightarrow> json list" where
  "access_tokens_of entries = List.map_filter access_token_of entries"

text \<open>
  The revoke requests that the listed entries call for, in the order of the list.
\<close>

definition revoke_requests :: "string \<Rightarrow> string \<Rightarrow> string \<Rightarrow> json list \<Rightarrow> event list" where
  "revoke_requests durl u p entries =
     map (\<lambda>v. Http POST (Url_eq durl v) HEADERS u p) (access_tokens_of entries)"

text \<open>
  A token-creation request is a \<^verbatim>\<open>POST\<close> to the token address itself; \<open>token_requests\<close>
  counts them in a trace.
\<close>

fun is_token_request :: "string \<Rightarrow> event \<Rightarrow> bool" where
  "is_token_request turl (Http m u h usr pwd) = (m = POST \<and> u = Url turl)"
| "is_token_request turl _ = False"

definition token_requests :: "string \<Rightarrow> event list \<Rightarrow> nat" where
  "token_requests turl tr = length (filter (is_token_request turl) tr)"

text \<open>
  The \<^verbatim>\<open>put_parameter\<close> calls of a trace.
\<close>

fun put_of :: "event \<Rightarrow> put_args option" where
  "put_of (Ssm_put_parameter a) = Some a"
| "put_of _ = None"

definition puts_of :: "event list \<Rightarrow> put_args list" where
  "puts_of tr = List.map_filter put_of tr"

text \<open>
  The parameter store is a service outside the program. What is taken from it here is
  only what one \<^verbatim>\<open>put_parameter\<close> call does to the stored parameters: a call that the
  world refuses changes nothing; a call that it accepts binds the name to the arguments
  of the call when \<^verbatim>\<open>Overwrite\<close> is set or the name is not yet in use.
  \<open>stored_after\<close> replays the calls of a trace, in order, on a store.
\<close>

definition put_parameter_effect ::
  "world \<Rightarrow> put_args \<Rightarrow> (string \<rightharpoonup> put_args) \<Rightarrow> (string \<rightharpoonup> put_args)" where
  "put_parameter_effect w a store =
     (case ssm_put_parameter w a of
        Inl x \<Rightarrow> store
      | Inr u \<Rightarrow>
          (if p_overwrite a \<or> store (p_name a) = None then store(p_name a \<mapsto> a) else store))"

definition stored_after ::
  "world \<Rightarrow> event list \<Rightarrow> (string \<rightharpoonup> put_args) \<Rightarrow> (string \<rightharpoonup> put_args)" where
  "stored_after w tr store = fold (put_parameter_effect w) (puts_of tr) store"

section \<open>Example worlds\<close>

text \<open>
  A provider that answers the HTTP requests of a run from a list, in order, and stops
  answering when the list is used up.
\<close>

definition scripted :: "reply list \<Rightarrow> nat \<Rightarrow> reply" where
  "scripted rs n = (if n < length rs then rs ! n else Transport_error)"

text \<open>
  \<^verbatim>\<open>boto3\<close> checks the types of the arguments before it sends anything: a
  \<^verbatim>\<open>Value\<close> that is not a string raises \<^verbatim>\<open>ParamValidationError\<close>, which is a
  \<^verbatim>\<open>BotoCoreError\<close> and not a \<^verbatim>\<open>ClientError\<close>.
\<close>

definition put_parameter_checked :: "put_args \<Rightarrow> exn + unit" where
  "put_parameter_checked a =
     (case p_value a of
        JStr s \<Rightarrow> Inr ()
      | _ \<Rightarrow> Inl (BotoCoreError ''Parameter validation failed''))"

text \<open>
  A world in which the credentials are \<open>user\<close> and \<open>secret\<close>, every alias resolves to
  \<open>key-1\<close>, and the provider follows the given list of answers.
\<close>

definition example_world :: "reply list \<Rightarrow> world" where
  "example_world rs =
     \<lparr> http = scripted rs,
       ssm_get_parameter = (\<lambda>name. if name = ''edl_username'' then Inr ''user'' else Inr ''secret''),
       kms_describe_key = (\<lambda>alias. Inr ''key-1''),
       ssm_put_parameter = put_parameter_checked \<rparr>"

text \<open>
  A remediation run: the token limit is reached, three entries are listed (one without a
  token), both revoke requests are answered, and the second token request gets the answer
  \<open>retry\<close>.
\<close>

definition listed_example :: "json list" where
  "listed_example =
     [JObj [(''access_token'', JStr ''old1'')],
      JObj [(''expiration_date'', JStr ''01/01/2030'')],
      JObj [(''access_token'', JStr ''old2'')]]"

definition remediation_replies :: "json \<Rightarrow> reply list" where
  "remediation_replies retry =
     [Response (Some (JObj [(''error'', JStr ''max_token_limit'')])),
      Response (Some (JArr listed_example)),
      Response None,
      Response None,
      Response (Some retry)]"

section \<open>Basic facts\<close>

lemma http_calls_append: "http_calls (tr @ evs) = http_calls tr + http_calls evs"
  by (simp add: http_calls_def)

lemma http_calls_Http: "http_calls (tr @ [Http m u h a b]) = Suc (http_calls tr)"
  by (simp add: http_calls_def)

lemma requests_call_response:
  "http w (http_calls tr) = Response body \<Longrightarrow>
   requests_call w m u a b tr = (Inr body, tr @ [Http m u HEADERS a b])"
  by (simp add: requests_call_def)

lemma key_present: "(k \<in> set (map fst d)) = (map_of d k \<noteq> None)"
  by (simp add: map_of_eq_None_iff)

lemma token_requests_append:
  "token_requests turl (tr @ evs) = token_requests turl tr + token_requests turl evs"
  by (simp add: token_requests_def)

lemma puts_of_append: "puts_of (tr @ evs) = puts_of tr @ puts_of evs"
  by (simp add: puts_of_def map_filter_def)

section \<open>The first token request\<close>

text \<open>
  Claim C3, as amended. When the first answer to the token request is a JSON object with an
  \<^verbatim>\<open>access_token\<close> key and no \<^verbatim>\<open>error\<close> key, \<^verbatim>\<open>generate_token\<close> returns exactly the
  value under \<^verbatim>\<open>access_token\<close>; the only request of the call is that token request, so
  there is no list-tokens and no revoke request.
\<close>

theorem generate_token_first_success:
  assumes "http w (http_calls tr) = Response (Some (JObj d))"
    and "map_of d ''error'' = None"
    and "map_of d ''access_token'' = Some v"
  shows "generate_token w username password turl durl tr =
           (Inr v,
            tr @ [Http POST (Url turl) HEADERS username password, Log INFO successfully_generated])"
  using assms
  by (simp add: generate_token_def requests_call_response response_json_def key_present del: set_map)

theorem generate_token_first_success_witness:
  "generate_token
     (example_world [Response (Some (JObj [(''access_token'', JStr ''abc123''),
                                           (''token_type'', JStr ''Bearer'')]))])
     ''user'' ''secret'' token_url delete_token_url [] =
   (Inr (JStr ''abc123''),
    [Http POST (Url token_url) HEADERS ''user'' ''secret'', Log INFO successfully_generated])"
  using generate_token_first_success
    [of "example_world [Response (Some (JObj [(''access_token'', JStr ''abc123''),
                                              (''token_type'', JStr ''Bearer'')]))]"
        "[]" "[(''access_token'', JStr ''abc123''), (''token_type'', JStr ''Bearer'')]"
        "JStr ''abc123''" "''user''" "''secret''" token_url delete_token_url]
  by (simp add: example_world_def scripted_def http_calls_def)

text \<open>
  Claim C3 as stated asks only for an \<^verbatim>\<open>access_token\<close> key. The program looks for an
  \<^verbatim>\<open>error\<close> key first: an answer that holds both is treated as an error, and the
  token in it is not returned.
\<close>

theorem generate_token_error_field_first:
  "map_of [(''error'', JStr ''invalid_credentials''), (''access_token'', JStr ''abc123'')]
     ''access_token'' = Some (JStr ''abc123'')
   \<and> generate_token
       (example_world [Response (Some (JObj [(''error'', JStr ''invalid_credentials''),
                                             (''access_token'', JStr ''abc123'')]))])
       ''user'' ''secret'' token_url delete_token_url [] =
     (Inr (JBool False),
      [Http POST (Url token_url) HEADERS ''user'' ''secret'', Log ERROR error_encountered])
   \<and> fst (generate_token
       (example_world [Response (Some (JObj [(''error'', JStr ''invalid_credentials''),
                                             (''access_token'', JStr ''abc123'')]))])
       ''user'' ''secret'' token_url delete_token_url []) \<noteq> Inr (JStr ''abc123'')"
  by (simp add: generate_token_def requests_call_def response_json_def example_world_def
        scripted_def http_calls_def)

text \<open>
  Claim C5. When the first answer is a JSON object whose \<^verbatim>\<open>error\<close> value is anything
  but the string \<^verbatim>\<open>max_token_limit\<close>, \<^verbatim>\<open>generate_token\<close> returns \<^verbatim>\<open>False\<close> (no
  exception), logs one error line, and has sent the token request only: no list-tokens
  and no revoke request.
\<close>

theorem generate_token_other_error:
  assumes "http w (http_calls tr) = Response (Some (JObj d))"
    and "map_of d ''error'' = Some code"
    and "code \<noteq> JStr ''max_token_limit''"
  shows "generate_token w username password turl durl tr =
           (Inr (JBool False),
            tr @ [Http POST (Url turl) HEADERS username password, Log ERROR error_encountered])"
  using assms
  by (simp add: generate_token_def requests_call_response response_json_def key_present del: set_map)

theorem generate_token_other_error_witness:
  "generate_token
     (example_world [Response (Some (JObj [(''error'', JStr ''invalid_credentials'')]))])
     ''user'' ''secret'' token_url delete_token_url [] =
   (Inr (JBool False),
    [Http POST (Url token_url) HEADERS ''user'' ''secret'', Log ERROR error_encountered])"
  using generate_token_other_error
    [of "example_world [Response (Some (JObj [(''error'', JStr ''invalid_credentials'')]))]"
        "[]" "[(''error'', JStr ''invalid_credentials'')]" "JStr ''invalid_credentials''"
        "''user''" "''secret''" token_url delete_token_url]
  by (simp add: example_world_def scripted_def http_calls_def)

text \<open>
  Claim C9. When the first answer is a JSON object with neither an \<^verbatim>\<open>error\<close> nor an
  \<^verbatim>\<open>access_token\<close> key, \<^verbatim>\<open>generate_token\<close> raises \<^verbatim>\<open>KeyError\<close> instead of returning
  a failure; for an answer without an \<^verbatim>\<open>error\<close> key it returns a value exactly when
  the answer has an \<^verbatim>\<open>access_token\<close> key.
\<close>

theorem generate_token_key_error:
  assumes "http w (http_calls tr) = Response (Some (JObj d))"
    and "map_of d ''error'' = None"
  shows "(map_of d ''access_token'' = None \<longrightarrow>
            generate_token w username password turl durl tr =
              (Inl (KeyError ''access_token''), tr @ [Http POST (Url turl) HEADERS username password]))
       \<and> ((\<exists>v. fst (generate_token w username password turl durl tr) = Inr v)
             \<longleftrightarrow> map_of d ''access_token'' \<noteq> None)"
  using assms
  by (auto simp add: generate_token_def requests_call_response response_json_def key_present
        simp del: set_map split: option.splits)

theorem generate_token_key_error_witness:
  "generate_token
     (example_world [Response (Some (JObj [(''token_type'', JStr ''Bearer'')]))])
     ''user'' ''secret'' token_url delete_token_url [] =
   (Inl (KeyError ''access_token''), [Http POST (Url token_url) HEADERS ''user'' ''secret''])"
  using generate_token_key_error
    [of "example_world [Response (Some (JObj [(''token_type'', JStr ''Bearer'')]))]"
        "[]" "[(''token_type'', JStr ''Bearer'')]"
        "''user''" "''secret''" token_url delete_token_url]
  by (simp add: example_world_def scripted_def http_calls_def)

section \<open>Remediation\<close>

lemma revoke_tokens_completes:
  "\<forall>e\<in>set entries. is_object e \<Longrightarrow>
   \<forall>i<length (access_tokens_of entries). http w (http_calls tr + i) \<noteq> Transport_error \<Longrightarrow>
   revoke_tokens w u p durl entries tr =
     (Inr (), tr @ map (\<lambda>v. Http POST (Url_eq durl v) HEADERS u p) (access_tokens_of entries))"
proof (induction entries arbitrary: tr)
  case Nil
  then show ?case by (simp add: access_tokens_of_def map_filter_simps)
next
  case (Cons e es)
  from Cons.prems(1) obtain d where e: "e = JObj d" by (cases e) auto
  show ?case
  proof (cases "map_of d ''access_token''")
    case None
    then have toks: "access_tokens_of (e # es) = access_tokens_of es"
      by (simp add: access_tokens_of_def map_filter_simps e)
    with Cons.prems have "revoke_tokens w u p durl es tr =
       (Inr (), tr @ map (\<lambda>v. Http POST (Url_eq durl v) HEADERS u p) (access_tokens_of es))"
      by (intro Cons.IH) auto
    then show ?thesis using None toks by (simp add: e key_present del: set_map)
  next
    case (Some v)
    then have toks: "access_tokens_of (e # es) = v # access_tokens_of es"
      by (simp add: access_tokens_of_def map_filter_simps e)
    from Cons.prems(2) toks have "http w (http_calls tr + 0) \<noteq> Transport_error"
      by (metis length_greater_0_conv list.distinct(1))
    then obtain body where body: "http w (http_calls tr) = Response body"
      by (cases "http w (http_calls tr)") auto
    let ?tr1 = "tr @ [Http POST (Url_eq durl v) HEADERS u p]"
    have "\<forall>i<length (access_tokens_of es). http w (http_calls ?tr1 + i) \<noteq> Transport_error"
    proof (intro allI impI)
      fix i assume "i < length (access_tokens_of es)"
      then have "Suc i < length (access_tokens_of (e # es))" by (simp add: toks)
      with Cons.prems(2) have "http w (http_calls tr + Suc i) \<noteq> Transport_error" by blast
      then show "http w (http_calls ?tr1 + i) \<noteq> Transport_error" by (simp add: http_calls_Http)
    qed
    with Cons.prems(1) have "revoke_tokens w u p durl es ?tr1 =
       (Inr (), ?tr1 @ map (\<lambda>v. Http POST (Url_eq durl v) HEADERS u p) (access_tokens_of es))"
      by (intro Cons.IH) auto
    then show ?thesis using Some toks body
      by (simp add: e key_present requests_call_response del: set_map)
  qed
qed

lemma handle_token_error_completes:
  assumes list: "http w (http_calls tr) = Response (Some (JArr entries))"
    and objs: "\<forall>e\<in>set entries. is_object e"
    and revs: "\<forall>i<length (access_tokens_of entries). http w (http_calls tr + 1 + i) \<noteq> Transport_error"
    and retry: "http w (http_calls tr + 1 + length (access_tokens_of entries)) = Response (Some (JObj d2))"
  shows "handle_token_error w td u p turl durl tr =
     (if map_of d2 ''error'' \<noteq> None
      then (Inr (JBool False),
            tr @ Http GET (Url (turl @ ''s'')) HEADERS u p # revoke_requests durl u p entries
               @ [Http POST (Url turl) HEADERS u p, Log ERROR error_encountered])
      else (case map_of d2 ''access_token'' of
              None \<Rightarrow> (Inl (KeyError ''access_token''),
                        tr @ Http GET (Url (turl @ ''s'')) HEADERS u p # revoke_requests durl u p entries
                           @ [Http POST (Url turl) HEADERS u p])
            | Some v \<Rightarrow> (Inr v,
                        tr @ Http GET (Url (turl @ ''s'')) HEADERS u p # revoke_requests durl u p entries
                           @ [Http POST (Url turl) HEADERS u p])))"
proof -
  let ?tr1 = "tr @ [Http GET (Url (turl @ ''s'')) HEADERS u p]"
  let ?tr2 = "tr @ Http GET (Url (turl @ ''s'')) HEADERS u p # revoke_requests durl u p entries"
  have c1: "http_calls ?tr1 = http_calls tr + 1" by (simp add: http_calls_Http)
  have "revoke_tokens w u p durl entries ?tr1 = (Inr (), ?tr1 @ revoke_requests durl u p entries)"
    unfolding revoke_requests_def
    by (rule revoke_tokens_completes [OF objs]) (use revs c1 in simp)
  then have rv: "revoke_tokens w u p durl entries ?tr1 = (Inr (), ?tr2)" by simp
  have "http_calls (revoke_requests durl u p entries) = length (access_tokens_of entries)"
    by (simp add: http_calls_def revoke_requests_def filter_map comp_def)
  moreover have "http_calls (?tr1 @ revoke_requests durl u p entries)
      = http_calls ?tr1 + http_calls (revoke_requests durl u p entries)"
    by (rule http_calls_append)
  ultimately have c2: "http_calls ?tr2 = http_calls tr + 1 + length (access_tokens_of entries)"
    using c1 by simp
  have rq: "requests_call w POST (Url turl) u p ?tr2 =
      (Inr (Some (JObj d2)), ?tr2 @ [Http POST (Url turl) HEADERS u p])"
    by (rule requests_call_response) (use retry c2 in simp)
  show ?thesis
    unfolding handle_token_error_def
    by (simp add: requests_call_response [OF list] response_json_def rv rq key_present
          del: set_map split: option.splits)
qed

lemma listed_example_tokens: "access_tokens_of listed_example = [JStr ''old1'', JStr ''old2'']"
  by (simp add: access_tokens_of_def listed_example_def map_filter_simps)

lemma remediation_replies_revokes:
  "\<forall>i<length (access_tokens_of listed_example).
      http (example_world (remediation_replies retry)) (http_calls [] + 2 + i) \<noteq> Transport_error"
  by (simp add: listed_example_tokens example_world_def scripted_def remediation_replies_def
        http_calls_def less_Suc_eq numeral_2_eq_2)

text \<open>
  Claim C2. Let the first answer to the token request be a JSON object whose \<^verbatim>\<open>error\<close>
  is \<^verbatim>\<open>max_token_limit\<close> (the object \<^verbatim>\<open>{"error": "max_token_limit"}\<close> is one), let
  the list-tokens request be answered with a JSON array of objects, let every revoke
  request get a response, and let the second token request be answered with a JSON
  object. Then the HTTP requests of \<^verbatim>\<open>generate_token\<close> are, in this order: the token
  request, one list-tokens request, one revoke request for each listed entry that has an
  \<^verbatim>\<open>access_token\<close> (the others are skipped), and one more token request. The result is
  \<^verbatim>\<open>False\<close> when the second answer has an \<^verbatim>\<open>error\<close> key, and the new token when it
  has none and has an \<^verbatim>\<open>access_token\<close>.
\<close>

theorem generate_token_remediation:
  assumes "http w (http_calls tr) = Response (Some (JObj d))"
    and "map_of d ''error'' = Some (JStr ''max_token_limit'')"
    and "http w (http_calls tr + 1) = Response (Some (JArr entries))"
    and "\<forall>e\<in>set entries. is_object e"
    and "\<forall>i<length (access_tokens_of entries). http w (http_calls tr + 2 + i) \<noteq> Transport_error"
    and "http w (http_calls tr + 2 + length (access_tokens_of entries)) = Response (Some (JObj d2))"
  shows "filter is_http (snd (generate_token w u p turl durl tr)) =
           filter is_http tr @ [Http POST (Url turl) HEADERS u p, Http GET (Url (turl @ ''s'')) HEADERS u p]
             @ revoke_requests durl u p entries @ [Http POST (Url turl) HEADERS u p]
       \<and> (map_of d2 ''error'' \<noteq> None \<longrightarrow> fst (generate_token w u p turl durl tr) = Inr (JBool False))
       \<and> (map_of d2 ''error'' = None \<longrightarrow> map_of d2 ''access_token'' = Some t \<longrightarrow>
            fst (generate_token w u p turl durl tr) = Inr t)"
proof -
  let ?tr1 = "tr @ [Http POST (Url turl) HEADERS u p]"
  have c1: "http_calls ?tr1 = http_calls tr + 1" by (simp add: http_calls_Http)
  have flt: "filter is_http (revoke_requests durl u p entries) = revoke_requests durl u p entries"
    by (simp add: revoke_requests_def filter_map comp_def)
  have h: "handle_token_error w (JObj d) u p turl durl ?tr1 =
     (if map_of d2 ''error'' \<noteq> None
      then (Inr (JBool False),
            ?tr1 @ Http GET (Url (turl @ ''s'')) HEADERS u p # revoke_requests durl u p entries
               @ [Http POST (Url turl) HEADERS u p, Log ERROR error_encountered])
      else (case map_of d2 ''access_token'' of
              None \<Rightarrow> (Inl (KeyError ''access_token''),
                        ?tr1 @ Http GET (Url (turl @ ''s'')) HEADERS u p # revoke_requests durl u p entries
                           @ [Http POST (Url turl) HEADERS u p])
            | Some v \<Rightarrow> (Inr v,
                        ?tr1 @ Http GET (Url (turl @ ''s'')) HEADERS u p # revoke_requests durl u p entries
                           @ [Http POST (Url turl) HEADERS u p])))"
    by (rule handle_token_error_completes) (use assms c1 in \<open>simp_all add: add.assoc\<close>)
  show ?thesis
    unfolding generate_token_def
    by (simp add: requests_call_response [OF assms(1)] response_json_def key_present assms(2) h flt
          del: set_map split: option.splits)
qed

theorem generate_token_remediation_witness:
  "filter is_http (snd (generate_token
      (example_world (remediation_replies (JObj [(''access_token'', JStr ''xyz789'')])))
      ''user'' ''secret'' token_url delete_token_url [])) =
     [Http POST (Url token_url) HEADERS ''user'' ''secret'',
      Http GET (Url (token_url @ ''s'')) HEADERS ''user'' ''secret'',
      Http POST (Url_eq delete_token_url (JStr ''old1'')) HEADERS ''user'' ''secret'',
      Http POST (Url_eq delete_token_url (JStr ''old2'')) HEADERS ''user'' ''secret'',
      Http POST (Url token_url) HEADERS ''user'' ''secret'']
   \<and> fst (generate_token
      (example_world (remediation_replies (JObj [(''access_token'', JStr ''xyz789'')])))
      ''user'' ''secret'' token_url delete_token_url []) = Inr (JStr ''xyz789'')"
  using generate_token_remediation
    [of "example_world (remediation_replies (JObj [(''access_token'', JStr ''xyz789'')]))"
        "[]" "[(''error'', JStr ''max_token_limit'')]" listed_example
        "[(''access_token'', JStr ''xyz789'')]" "''user''" "''secret''" token_url delete_token_url
        "JStr ''xyz789''",
     OF _ _ _ _ remediation_replies_revokes]
  by (simp add: listed_example_tokens revoke_requests_def example_world_def scripted_def
        remediation_replies_def http_calls_def)
     (simp add: listed_example_def)

text \<open>
  Claim C10. In a remediation run whose second token request is again answered with an
  error, \<^verbatim>\<open>generate_token\<close> returns the boolean \<^verbatim>\<open>False\<close> (a value, not an exception),
  and the last two entries of the trace are the error line of \<^verbatim>\<open>handle_token_error\<close>
  followed by the info line "Successfully generated EDL bearer token.".
\<close>

theorem generate_token_false_after_retry:
  assumes "http w (http_calls tr) = Response (Some (JObj d))"
    and "map_of d ''error'' = Some (JStr ''max_token_limit'')"
    and "http w (http_calls tr + 1) = Response (Some (JArr entries))"
    and "\<forall>e\<in>set entries. is_object e"
    and "\<forall>i<length (access_tokens_of entries). http w (http_calls tr + 2 + i) \<noteq> Transport_error"
    and "http w (http_calls tr + 2 + length (access_tokens_of entries)) = Response (Some (JObj d2))"
    and "map_of d2 ''error'' = Some code2"
  shows "generate_token w u p turl durl tr =
           (Inr (JBool False),
            tr @ [Http POST (Url turl) HEADERS u p, Http GET (Url (turl @ ''s'')) HEADERS u p]
               @ revoke_requests durl u p entries
               @ [Http POST (Url turl) HEADERS u p,
                  Log ERROR error_encountered, Log INFO successfully_generated])"
proof -
  let ?tr1 = "tr @ [Http POST (Url turl) HEADERS u p]"
  have c1: "http_calls ?tr1 = http_calls tr + 1" by (simp add: http_calls_Http)
  have h: "handle_token_error w (JObj d) u p turl durl ?tr1 =
     (if map_of d2 ''error'' \<noteq> None
      then (Inr (JBool False),
            ?tr1 @ Http GET (Url (turl @ ''s'')) HEADERS u p # revoke_requests durl u p entries
               @ [Http POST (Url turl) HEADERS u p, Log ERROR error_encountered])
      else (case map_of d2 ''access_token'' of
              None \<Rightarrow> (Inl (KeyError ''access_token''),
                        ?tr1 @ Http GET (Url (turl @ ''s'')) HEADERS u p # revoke_requests durl u p entries
                           @ [Http POST (Url turl) HEADERS u p])
            | Some v \<Rightarrow> (Inr v,
                        ?tr1 @ Http GET (Url (turl @ ''s'')) HEADERS u p # revoke_requests durl u p entries
                           @ [Http POST (Url turl) HEADERS u p])))"
    by (rule handle_token_error_completes) (use assms c1 in \<open>simp_all add: add.assoc\<close>)
  show ?thesis
    unfolding generate_token_def
    by (simp add: requests_call_response [OF assms(1)] response_json_def key_present assms(2) assms(7) h
          del: set_map)
qed

theorem generate_token_false_after_retry_witness:
  "generate_token
      (example_world (remediation_replies (JObj [(''error'', JStr ''max_token_limit'')])))
      ''user'' ''secret'' token_url delete_token_url [] =
     (Inr (JBool False),
      [Http POST (Url token_url) HEADERS ''user'' ''secret'',
       Http GET (Url (token_url @ ''s'')) HEADERS ''user'' ''secret'',
       Http POST (Url_eq delete_token_url (JStr ''old1'')) HEADERS ''user'' ''secret'',
       Http POST (Url_eq delete_token_url (JStr ''old2'')) HEADERS ''user'' ''secret'',
       Http POST (Url token_url) HEADERS ''user'' ''secret'',
       Log ERROR ''Error encountered when trying to retrieve bearer token from EDL.'',
       Log INFO ''Successfully generated EDL bearer token.''])"
  using generate_token_false_after_retry
    [of "example_world (remediation_replies (JObj [(''error'', JStr ''max_token_limit'')]))"
        "[]" "[(''error'', JStr ''max_token_limit'')]" listed_example
        "[(''error'', JStr ''max_token_limit'')]" "JStr ''max_token_limit''"
        "''user''" "''secret''" token_url delete_token_url,
     OF _ _ _ _ remediation_replies_revokes]
  by (simp add: listed_example_tokens revoke_requests_def example_world_def scripted_def
        remediation_replies_def http_calls_def error_encountered_def successfully_generated_def)
     (simp add: listed_example_def)

section \<open>The number of token requests\<close>

lemma revoke_tokens_token_requests:
  "token_requests turl (snd (revoke_tokens w u p durl entries tr)) = token_requests turl tr"
proof (induction entries arbitrary: tr)
  case Nil
  show ?case by simp
next
  case (Cons e es)
  have step: "token_requests turl (snd (revoke_tokens w u p durl es (tr @ [Http POST (Url_eq durl v) HEADERS u p])))
      = token_requests turl tr" for v
  proof -
    have "token_requests turl (snd (revoke_tokens w u p durl es (tr @ [Http POST (Url_eq durl v) HEADERS u p])))
        = token_requests turl (tr @ [Http POST (Url_eq durl v) HEADERS u p])"
      by (rule Cons.IH)
    also have "\<dots> = token_requests turl tr" by (simp add: token_requests_def)
    finally show ?thesis .
  qed
  show ?case
    by (simp add: Cons.IH step requests_call_def token_requests_append
          split: sum.splits reply.splits prod.splits)
       (simp add: token_requests_def)
qed

lemma handle_token_error_token_requests:
  "token_requests turl (snd (handle_token_error w td u p turl durl tr)) \<le> token_requests turl tr + 1"
proof -
  let ?tr1 = "tr @ [Http GET (Url (turl @ ''s'')) HEADERS u p]"
  have a: "token_requests turl ?tr1 = token_requests turl tr" by (simp add: token_requests_def)
  have b: "token_requests turl (snd (revoke_tokens w u p durl es ?tr1)) = token_requests turl tr" for es
    by (simp add: revoke_tokens_token_requests a)
  have c: "revoke_tokens w u p durl es ?tr1 = (r, tr2) \<Longrightarrow> token_requests turl tr2 = token_requests turl tr"
    for es r tr2 using b [of es] by simp
  show ?thesis
    unfolding handle_token_error_def requests_call_def
    by (auto simp add: token_requests_append a dest!: c
          split: sum.splits reply.splits prod.splits) (simp_all add: token_requests_def)
qed

text \<open>
  Claim C4. Whatever the world answers, one call of \<^verbatim>\<open>generate_token\<close> adds at most two
  token-creation requests to the trace: there is no third one.
\<close>

theorem generate_token_at_most_two_requests:
  "token_requests turl (snd (generate_token w username password turl durl tr))
     \<le> token_requests turl tr + 2"
proof -
  let ?tr1 = "tr @ [Http POST (Url turl) HEADERS username password]"
  have a: "token_requests turl ?tr1 = token_requests turl tr + 1" by (simp add: token_requests_def)
  have c: "handle_token_error w td username password turl durl ?tr1 = (r, tr2)
      \<Longrightarrow> token_requests turl tr2 \<le> token_requests turl tr + 2" for td r tr2
    using handle_token_error_token_requests [of turl w td username password durl ?tr1] a by simp
  show ?thesis
    unfolding generate_token_def requests_call_def
    by (auto simp add: token_requests_append a dest!: c
          split: sum.splits reply.splits prod.splits) (simp_all add: token_requests_def)
qed

section \<open>The token store\<close>

text \<open>
  Claim C6. When the alias \<^verbatim>\<open>alias/{prefix}-ssm-parameter-store\<close> resolves to a key id and
  the parameter store accepts the write, \<^verbatim>\<open>store_token(token, prefix)\<close> returns, and what
  it has done is exactly: one \<^verbatim>\<open>describe_key\<close> call for that alias, one
  \<^verbatim>\<open>put_parameter\<close> call (name \<^verbatim>\<open>bearer--edl--token\<close>, description
  \<^verbatim>\<open>Temporary EDL bearer token\<close>, the given token as value, type \<^verbatim>\<open>SecureString\<close>, the
  resolved key id, overwrite set, tier \<^verbatim>\<open>Standard\<close>) and one info line. A second call with
  another token adds the same three entries with the new value, and replaying both writes
  on any store leaves the name bound to the parameter of the second call. No call of
  \<^verbatim>\<open>store_token\<close> returns in any other way: a call that returns has resolved the alias
  and had its write accepted.
\<close>

theorem store_token_writes_parameter:
  assumes "kms_describe_key w (''alias/'' @ prefix @ ''-ssm-parameter-store'') = Inr key"
    and "ssm_put_parameter w
           \<lparr> p_name = ''bearer--edl--token'', p_description = ''Temporary EDL bearer token'',
              p_value = token, p_type = ''SecureString'', p_key_id = key,
              p_overwrite = True, p_tier = ''Standard'' \<rparr> = Inr ()"
    and "ssm_put_parameter w
           \<lparr> p_name = ''bearer--edl--token'', p_description = ''Temporary EDL bearer token'',
              p_value = token', p_type = ''SecureString'', p_key_id = key,
              p_overwrite = True, p_tier = ''Standard'' \<rparr> = Inr ()"
  shows "store_token w token prefix tr =
           (Inr (),
            tr @ [Kms_describe_key (''alias/'' @ prefix @ ''-ssm-parameter-store''),
                 Ssm_put_parameter
               \<lparr> p_name = ''bearer--edl--token'', p_description = ''Temporary EDL bearer token'',
                  p_value = token, p_type = ''SecureString'', p_key_id = key,
                  p_overwrite = True, p_tier = ''Standard'' \<rparr>,
                 Log INFO has_been_stored])
       \<and> store_token w token' prefix
            (tr @ [Kms_describe_key (''alias/'' @ prefix @ ''-ssm-parameter-store''),
                 Ssm_put_parameter
               \<lparr> p_name = ''bearer--edl--token'', p_description = ''Temporary EDL bearer token'',
                  p_value = token, p_type = ''SecureString'', p_key_id = key,
                  p_overwrite = True, p_tier = ''Standard'' \<rparr>,
                 Log INFO has_been_stored]) =
           (Inr (),
            tr @ [Kms_describe_key (''alias/'' @ prefix @ ''-ssm-parameter-store''),
                 Ssm_put_parameter
               \<lparr> p_name = ''bearer--edl--token'', p_description = ''Temporary EDL bearer token'',
                  p_value = token, p_type = ''SecureString'', p_key_id = key,
                  p_overwrite = True, p_tier = ''Standard'' \<rparr>,
                 Log INFO has_been_stored,
                 Kms_describe_key (''alias/'' @ prefix @ ''-ssm-parameter-store''),
                 Ssm_put_parameter
               \<lparr> p_name = ''bearer--edl--token'', p_description = ''Temporary EDL bearer token'',
                  p_value = token', p_type = ''SecureString'', p_key_id = key,
                  p_overwrite = True, p_tier = ''Standard'' \<rparr>,
                 Log INFO has_been_stored])
       \<and> stored_after w
            [Kms_describe_key (''alias/'' @ prefix @ ''-ssm-parameter-store''),
             Ssm_put_parameter
               \<lparr> p_name = ''bearer--edl--token'', p_description = ''Temporary EDL bearer token'',
                  p_value = token, p_type = ''SecureString'', p_key_id = key,
                  p_overwrite = True, p_tier = ''Standard'' \<rparr>,
             Log INFO has_been_stored,
             Kms_describe_key (''alias/'' @ prefix @ ''-ssm-parameter-store''),
             Ssm_put_parameter
               \<lparr> p_name = ''bearer--edl--token'', p_description = ''Temporary EDL bearer token'',
                  p_value = token', p_type = ''SecureString'', p_key_id = key,
                  p_overwrite = True, p_tier = ''Standard'' \<rparr>,
             Log INFO has_been_stored]
            store ''bearer--edl--token'' =
           Some \<lparr> p_name = ''bearer--edl--token'', p_description = ''Temporary EDL bearer token'',
                   p_value = token', p_type = ''SecureString'', p_key_id = key,
                   p_overwrite = True, p_tier = ''Standard'' \<rparr>
       \<and> (\<forall>t p tr0 tr'. store_token w t p tr0 = (Inr (), tr') \<longrightarrow>
            (\<exists>k. kms_describe_key w (''alias/'' @ p @ ''-ssm-parameter-store'') = Inr k
               \<and> ssm_put_parameter w
                   \<lparr> p_name = ''bearer--edl--token'', p_description = ''Temporary EDL bearer token'',
                      p_value = t, p_type = ''SecureString'', p_key_id = k,
                      p_overwrite = True, p_tier = ''Standard'' \<rparr> = Inr ()))"
proof -
  have conv: "\<exists>k. kms_describe_key w (''alias/'' @ p @ ''-ssm-parameter-store'') = Inr k
               \<and> ssm_put_parameter w (token_parameter t k) = Inr ()"
    if "store_token w t p tr0 = (Inr (), tr')" for t p tr0 tr'
    using that
    by (auto simp add: store_token_def store_handler_def key_alias_def
          split: sum.splits if_splits)
  have first: "store_token w token prefix tr =
      (Inr (), tr @ [Kms_describe_key (key_alias prefix),
                     Ssm_put_parameter (token_parameter token key), Log INFO has_been_stored])"
    using assms(1,2) by (simp add: store_token_def key_alias_def token_parameter_def)
  have second: "store_token w token' prefix tr0 =
      (Inr (), tr0 @ [Kms_describe_key (key_alias prefix),
                      Ssm_put_parameter (token_parameter token' key), Log INFO has_been_stored])"
    for tr0
    using assms(1,3) by (simp add: store_token_def key_alias_def token_parameter_def)
  have stored: "stored_after w
      [Kms_describe_key (key_alias prefix),
       Ssm_put_parameter (token_parameter token key), Log INFO has_been_stored,
       Kms_describe_key (key_alias prefix),
       Ssm_put_parameter (token_parameter token' key), Log INFO has_been_stored]
      store ''bearer--edl--token'' = Some (token_parameter token' key)"
    using assms(2,3)
    by (simp add: stored_after_def puts_of_def map_filter_simps put_parameter_effect_def
          token_parameter_def)
  show ?thesis
    using first second stored conv
    by (simp add: key_alias_def token_parameter_def)
qed

theorem store_token_writes_parameter_witness:
  "store_token (example_world []) (JStr ''abc123'') ''uds'' [] =
     (Inr (),
      [Kms_describe_key ''alias/uds-ssm-parameter-store'',
       Ssm_put_parameter
         \<lparr> p_name = ''bearer--edl--token'', p_description = ''Temporary EDL bearer token'',
            p_value = JStr ''abc123'', p_type = ''SecureString'', p_key_id = ''key-1'',
            p_overwrite = True, p_tier = ''Standard'' \<rparr>,
       Log INFO has_been_stored])
   \<and> store_token (example_world []) (JStr ''xyz789'') ''uds''
      [Kms_describe_key ''alias/uds-ssm-parameter-store'',
       Ssm_put_parameter
         \<lparr> p_name = ''bearer--edl--token'', p_description = ''Temporary EDL bearer token'',
            p_value = JStr ''abc123'', p_type = ''SecureString'', p_key_id = ''key-1'',
            p_overwrite = True, p_tier = ''Standard'' \<rparr>,
       Log INFO has_been_stored] =
     (Inr (),
      [Kms_describe_key ''alias/uds-ssm-parameter-store'',
       Ssm_put_parameter
         \<lparr> p_name = ''bearer--edl--token'', p_description = ''Temporary EDL bearer token'',
            p_value = JStr ''abc123'', p_type = ''SecureString'', p_key_id = ''key-1'',
            p_overwrite = True, p_tier = ''Standard'' \<rparr>,
       Log INFO has_been_stored,
       Kms_describe_key ''alias/uds-ssm-parameter-store'',
       Ssm_put_parameter
         \<lparr> p_name = ''bearer--edl--token'', p_description = ''Temporary EDL bearer token'',
            p_value = JStr ''xyz789'', p_type = ''SecureString'', p_key_id = ''key-1'',
            p_overwrite = True, p_tier = ''Standard'' \<rparr>,
       Log INFO has_been_stored])
   \<and> stored_after (example_world [])
      [Kms_describe_key ''alias/uds-ssm-parameter-store'',
       Ssm_put_parameter
         \<lparr> p_name = ''bearer--edl--token'', p_description = ''Temporary EDL bearer token'',
            p_value = JStr ''abc123'', p_type = ''SecureString'', p_key_id = ''key-1'',
            p_overwrite = True, p_tier = ''Standard'' \<rparr>,
       Log INFO has_been_stored,
       Kms_describe_key ''alias/uds-ssm-parameter-store'',
       Ssm_put_parameter
         \<lparr> p_name = ''bearer--edl--token'', p_description = ''Temporary EDL bearer token'',
            p_value = JStr ''xyz789'', p_type = ''SecureString'', p_key_id = ''key-1'',
            p_overwrite = True, p_tier = ''Standard'' \<rparr>,
       Log INFO has_been_stored]
      Map.empty ''bearer--edl--token'' =
     Some \<lparr> p_name = ''bearer--edl--token'', p_description = ''Temporary EDL bearer token'',
             p_value = JStr ''xyz789'', p_type = ''SecureString'', p_key_id = ''key-1'',
             p_overwrite = True, p_tier = ''Standard'' \<rparr>"
  using store_token_writes_parameter
    [of "example_world []" "''uds''" "''key-1''" "JStr ''abc123''" "JStr ''xyz789''" "[]"
        Map.empty]
  by (simp add: example_world_def put_parameter_checked_def)

text \<open>
  Claim C7. When resolving the key alias raises, \<^verbatim>\<open>store_token\<close> raises the same
  exception and the trace gains no \<^verbatim>\<open>put_parameter\<close> call; when the exception is a
  \<^verbatim>\<open>ClientError\<close> (the store error), the two error lines are logged before it is raised
  again.
\<close>

theorem store_token_key_failure:
  assumes "kms_describe_key w (''alias/'' @ prefix @ ''-ssm-parameter-store'') = Inl x"
  shows "store_token w token prefix tr =
           (Inl x,
            tr @ Kms_describe_key (''alias/'' @ prefix @ ''-ssm-parameter-store'')
               # (if is_ClientError x
                  then [Log ERROR could_not_store, Log ERROR (error_text x)] else []))
       \<and> puts_of (snd (store_token w token prefix tr)) = puts_of tr"
  using assms
  by (simp add: store_token_def store_handler_def key_alias_def puts_of_append)
     (simp add: puts_of_def map_filter_simps)

theorem store_token_key_failure_witness:
  "store_token
     (example_world [] \<lparr> kms_describe_key := \<lambda>alias. Inl (ClientError ''NotFoundException'') \<rparr>)
     (JStr ''abc123'') ''uds'' [] =
   (Inl (ClientError ''NotFoundException''),
    [Kms_describe_key ''alias/uds-ssm-parameter-store'',
     Log ERROR could_not_store, Log ERROR ''NotFoundException''])"
  using store_token_key_failure
    [of "example_world [] \<lparr> kms_describe_key := \<lambda>alias. Inl (ClientError ''NotFoundException'') \<rparr>"
        "''uds''" "ClientError ''NotFoundException''" "JStr ''abc123''" "[]"]
  by simp

section \<open>The orchestrator\<close>

text \<open>
  Claim C8. When reading either credential raises a \<^verbatim>\<open>ClientError\<close>,
  \<^verbatim>\<open>lambda_handler\<close> ends with \<^verbatim>\<open>sys.exit(1)\<close>, and the whole trace of the run is: the
  opening info line, the credential reads made so far, the two error lines of
  \<^verbatim>\<open>get_edl_creds\<close> and "Program exiting.". There is no HTTP request, no
  \<^verbatim>\<open>describe_key\<close> and no \<^verbatim>\<open>put_parameter\<close> in it.
\<close>

theorem lambda_handler_credential_failure:
  assumes "ssm_get_parameter w ''edl_username'' = Inl (ClientError e)
         \<or> (ssm_get_parameter w ''edl_username'' = Inr username
            \<and> ssm_get_parameter w ''edl_password'' = Inl (ClientError e))"
  shows "lambda_handler w event =
           (Inl (SystemExit 1),
            Log INFO ''Attempting to create token.''
              # (case ssm_get_parameter w ''edl_username'' of
                   Inl x \<Rightarrow> [Ssm_get_parameter ''edl_username'' True]
                 | Inr u \<Rightarrow> [Ssm_get_parameter ''edl_username'' True,
                            Ssm_get_parameter ''edl_password'' True])
              @ [Log ERROR could_not_retrieve, Log ERROR e, Log INFO ''Program exiting.''])"
  using assms
  by (auto simp add: lambda_handler_def get_edl_creds_def creds_handler_def exit_handler_def)

theorem lambda_handler_credential_failure_witness:
  "lambda_handler
     (example_world []
        \<lparr> ssm_get_parameter := \<lambda>name. if name = ''edl_username'' then Inr ''user''
                                      else Inl (ClientError ''ParameterNotFound'') \<rparr>)
     [(''prefix'', ''uds'')] =
   (Inl (SystemExit 1),
    [Log INFO ''Attempting to create token.'',
     Ssm_get_parameter ''edl_username'' True,
     Ssm_get_parameter ''edl_password'' True,
     Log ERROR could_not_retrieve,
     Log ERROR ''ParameterNotFound'',
     Log INFO ''Program exiting.''])"
  using lambda_handler_credential_failure
    [of "example_world []
           \<lparr> ssm_get_parameter := \<lambda>name. if name = ''edl_username'' then Inr ''user''
                                         else Inl (ClientError ''ParameterNotFound'') \<rparr>"
        "''ParameterNotFound''" "''user''" "[(''prefix'', ''uds'')]"]
  by simp

text \<open>
  Claim C1 says that after a failed token request nothing is written to the parameter
  store and the run exits with status 1. The program calls \<^verbatim>\<open>store_token\<close> before it
  tests \<^verbatim>\<open>if not token\<close>. In the run below the provider answers
  \<^verbatim>\<open>{"error": "invalid_credentials"}\<close>, \<^verbatim>\<open>generate_token\<close> returns \<^verbatim>\<open>False\<close>, and the
  trace goes on with \<^verbatim>\<open>describe_key\<close> and a \<^verbatim>\<open>put_parameter\<close> call whose value is
  \<^verbatim>\<open>False\<close>; the call is refused with an exception that is not a \<^verbatim>\<open>ClientError\<close>, so
  the run ends with that exception and not with \<^verbatim>\<open>sys.exit(1)\<close>.
\<close>

theorem lambda_handler_stores_after_failure:
  "lambda_handler
     (example_world [Response (Some (JObj [(''error'', JStr ''invalid_credentials'')]))])
     [(''prefix'', ''uds'')] =
   (Inl (BotoCoreError ''Parameter validation failed''),
    [Log INFO ''Attempting to create token.'',
     Ssm_get_parameter ''edl_username'' True,
     Ssm_get_parameter ''edl_password'' True,
     Log INFO ''Retrieved EDL username and password.'',
     Http POST (Url ''https://urs.earthdata.nasa.gov/api/users/token'')
       [(''Accept'', ''application/json'')] ''user'' ''secret'',
     Log ERROR ''Error encountered when trying to retrieve bearer token from EDL.'',
     Kms_describe_key ''alias/uds-ssm-parameter-store'',
     Ssm_put_parameter
       \<lparr> p_name = ''bearer--edl--token'', p_description = ''Temporary EDL bearer token'',
          p_value = JBool False, p_type = ''SecureString'', p_key_id = ''key-1'',
          p_overwrite = True, p_tier = ''Standard'' \<rparr>])"
  by (simp add: lambda_handler_def get_edl_creds_def generate_token_def requests_call_def
        response_json_def store_token_def store_handler_def exit_handler_def key_alias_def
        token_parameter_def example_world_def scripted_def put_parameter_checked_def
        http_calls_def HEADERS_def token_url_def error_encountered_def)

end
